theory Spec2Isabelle
  imports Main
begin

section \<open>Strings\<close>

text \<open>
  Python strings are modelled as Isabelle strings: lists of 8-bit characters, read as the
  code points U+0000 to U+00FF. The two stray symbols the program removes (U+00B6 and
  U+00C2) and the non-breaking space U+00A0 lie in that range; code points above U+00FF
  are outside the model.
\<close>

text \<open>\<^verbatim>\<open>str.isspace\<close> and the regular-expression class \<^verbatim>\<open>\s\<close> on this range.\<close>

definition is_space :: "char \<Rightarrow> bool" where
  "is_space c = (c \<in> set [CHR 0x09, CHR 0x0A, CHR 0x0B, CHR 0x0C, CHR 0x0D,
                           CHR 0x1C, CHR 0x1D, CHR 0x1E, CHR 0x1F, CHR 0x20,
                           CHR 0x85, CHR 0xA0])"

text \<open>The class \<^verbatim>\<open>\d\<close> on this range.\<close>

definition is_digit :: "char \<Rightarrow> bool" where
  "is_digit c = (c \<in> set ''0123456789'')"

text \<open>\<^verbatim>\<open>str.lower\<close> on one character: A-Z and the upper-case letters U+00C0 to U+00DE
  (U+00D7 is the multiplication sign) move up by 32.\<close>

definition lower_chr :: "char \<Rightarrow> char" where
  "lower_chr c = (let n = (of_char c :: nat) in
     if (65 \<le> n \<and> n \<le> 90) \<or> (192 \<le> n \<and> n \<le> 222 \<and> n \<noteq> 215)
     then char_of (n + 32) else c)"

definition lower :: "string \<Rightarrow> string" where
  "lower s = map lower_chr s"

definition lstrip :: "string \<Rightarrow> string" where
  "lstrip s = dropWhile is_space s"

definition rstrip :: "string \<Rightarrow> string" where
  "rstrip s = rev (dropWhile is_space (rev s))"

definition strip :: "string \<Rightarrow> string" where
  "strip s = rstrip (lstrip s)"

fun startswith :: "string \<Rightarrow> string \<Rightarrow> bool" where
  "startswith s [] = True"
| "startswith [] (p # ps) = False"
| "startswith (c # cs) (p # ps) = (c = p \<and> startswith cs ps)"

definition endswith :: "string \<Rightarrow> string \<Rightarrow> bool" where
  "endswith s p = startswith (rev s) (rev p)"

text \<open>\<^verbatim>\<open>sub in s\<close> on strings.\<close>

fun contains :: "string \<Rightarrow> string \<Rightarrow> bool" where
  "contains sub [] = (sub = [])"
| "contains sub (c # cs) = (startswith (c # cs) sub \<or> contains sub cs)"

text \<open>\<^verbatim>\<open>sep.join(parts)\<close>.\<close>

fun join :: "string \<Rightarrow> string list \<Rightarrow> string" where
  "join sep [] = []"
| "join sep [x] = x"
| "join sep (x # y # r) = x @ sep @ join sep (y # r)"

section \<open>Regular expressions\<close>

text \<open>
  The patterns of the program are values of \<open>rx\<close>, matched the way Python's backtracking
  matcher does: alternatives are tried in priority order and the first complete match wins.
  Repetition is applied to single-character classes only, which is all the patterns use.
  \<open>Dot\<close> is \<^verbatim>\<open>.\<close> without the DOTALL flag, \<open>DotAll\<close> with it; \<open>LitI\<close> is a literal under
  IGNORECASE.
\<close>

datatype cls = Dot | DotAll | Lit char | LitI char | Space | Digit | OneOf string

fun cmatch :: "cls \<Rightarrow> char \<Rightarrow> bool" where
  "cmatch Dot c = (c \<noteq> CHR 0x0A)"
| "cmatch DotAll c = True"
| "cmatch (Lit a) c = (c = a)"
| "cmatch (LitI a) c = (lower_chr c = lower_chr a)"
| "cmatch Space c = is_space c"
| "cmatch Digit c = is_digit c"
| "cmatch (OneOf as) c = (c \<in> set as)"

text \<open>
  \<open>Opt r\<close> is \<^verbatim>\<open>r?\<close>, \<open>StarG p\<close> is \<^verbatim>\<open>p*\<close>, \<open>StarL p\<close> is \<^verbatim>\<open>p*?\<close>, \<open>PlusG p\<close> is \<^verbatim>\<open>p+\<close>,
  \<open>Grp i r\<close> is the i-th capturing group, \<open>Look r\<close> is \<^verbatim>\<open>(?=r)\<close>, \<open>EndZ\<close> is \<^verbatim>\<open>\Z\<close>.
\<close>

datatype rx = Eps | C cls | Seq rx rx | Alt rx rx | Opt rx
  | StarG cls | StarL cls | PlusG cls | Grp nat rx | Look rx | EndZ

text \<open>A matcher state is the text still to be read and the groups captured so far; a group
  that took no part in the match reads as the empty string, as in \<^verbatim>\<open>re.findall\<close>.\<close>

type_synonym caps = "nat \<Rightarrow> string"
type_synonym mstate = "string \<times> caps"

text \<open>Greedy repetition: take as many characters as possible, give back one at a time.\<close>

fun star_g :: "cls \<Rightarrow> (mstate \<Rightarrow> mstate option) \<Rightarrow> string \<Rightarrow> caps \<Rightarrow> mstate option" where
  "star_g p k [] g = k ([], g)"
| "star_g p k (c # cs) g =
     (if cmatch p c
      then (case star_g p k cs g of Some r \<Rightarrow> Some r | None \<Rightarrow> k (c # cs, g))
      else k (c # cs, g))"

text \<open>Lazy repetition: take as few characters as possible, add one at a time.\<close>

fun star_l :: "cls \<Rightarrow> (mstate \<Rightarrow> mstate option) \<Rightarrow> string \<Rightarrow> caps \<Rightarrow> mstate option" where
  "star_l p k [] g = k ([], g)"
| "star_l p k (c # cs) g =
     (case k (c # cs, g) of Some r \<Rightarrow> Some r
      | None \<Rightarrow> if cmatch p c then star_l p k cs g else None)"

text \<open>\<open>m r k st\<close> matches \<open>r\<close> at state \<open>st\<close> and hands every way of doing so, in priority
  order, to the continuation \<open>k\<close> until one succeeds.\<close>

primrec m :: "rx \<Rightarrow> (mstate \<Rightarrow> mstate option) \<Rightarrow> mstate \<Rightarrow> mstate option" where
  "m Eps k st = k st"
| "m (C p) k st =
     (case fst st of [] \<Rightarrow> None
      | c # cs \<Rightarrow> if cmatch p c then k (cs, snd st) else None)"
| "m (Seq a b) k st = m a (m b k) st"
| "m (Alt a b) k st = (case m a k st of Some r \<Rightarrow> Some r | None \<Rightarrow> m b k st)"
| "m (Opt a) k st = (case m a k st of Some r \<Rightarrow> Some r | None \<Rightarrow> k st)"
| "m (StarG p) k st = star_g p k (fst st) (snd st)"
| "m (StarL p) k st = star_l p k (fst st) (snd st)"
| "m (PlusG p) k st =
     (case fst st of [] \<Rightarrow> None
      | c # cs \<Rightarrow> if cmatch p c then star_g p k cs (snd st) else None)"
| "m (Grp i a) k st =
     m a (\<lambda>st'. k (fst st',
                    (snd st')(i := take (length (fst st) - length (fst st')) (fst st)))) st"
| "m (Look a) k st = (case m a Some st of Some _ \<Rightarrow> k st | None \<Rightarrow> None)"
| "m EndZ k st = (if fst st = [] then k st else None)"

text \<open>A match anchored at the start of \<open>s\<close>: the number of characters it spans and its groups.\<close>

definition match_here :: "rx \<Rightarrow> string \<Rightarrow> (nat \<times> caps) option" where
  "match_here r s =
     (case m r Some (s, \<lambda>_. []) of None \<Rightarrow> None
      | Some (rest, g) \<Rightarrow> Some (length s - length rest, g))"

fun seqs :: "rx list \<Rightarrow> rx" where
  "seqs [] = Eps"
| "seqs [r] = r"
| "seqs (r # rs) = Seq r (seqs rs)"

definition lits_i :: "string \<Rightarrow> rx" where
  "lits_i s = seqs (map (\<lambda>c. C (LitI c)) s)"

text \<open>
  \<^verbatim>\<open>re.sub(r, repl, s)\<close> for a replacement without group references: leftmost matches,
  left to right, without overlap. None of the program's patterns matches the empty string;
  the branch for an empty match copies the next character and moves on.
\<close>

function re_sub :: "rx \<Rightarrow> string \<Rightarrow> string \<Rightarrow> string" where
  "re_sub r repl [] = (case match_here r [] of Some _ \<Rightarrow> repl | None \<Rightarrow> [])"
| "re_sub r repl (c # cs) =
     (case match_here r (c # cs) of
        None \<Rightarrow> c # re_sub r repl cs
      | Some (n, g) \<Rightarrow>
          if n = 0 then repl @ c # re_sub r repl cs
          else repl @ re_sub r repl (drop n (c # cs)))"
  by pat_completeness auto
termination
  by (relation "measure (\<lambda>(r, repl, s). length s)") auto

text \<open>\<^verbatim>\<open>re.findall(r, s)\<close>: the groups of each match, left to right, without overlap.\<close>

function findall :: "rx \<Rightarrow> string \<Rightarrow> caps list" where
  "findall r [] = (case match_here r [] of Some (n, g) \<Rightarrow> [g] | None \<Rightarrow> [])"
| "findall r (c # cs) =
     (case match_here r (c # cs) of
        None \<Rightarrow> findall r cs
      | Some (n, g) \<Rightarrow>
          if n = 0 then g # findall r cs
          else g # findall r (drop n (c # cs)))"
  by pat_completeness auto
termination
  by (relation "measure (\<lambda>(r, s). length s)") auto

section \<open>TextNormalizer: \<^verbatim>\<open>clean_text\<close>\<close>

text \<open>The patterns of \<^verbatim>\<open>clean_text\<close> in \<^verbatim>\<open>app.py\<close>:
  \<^verbatim>\<open>[\<paragraph>\<hat>A]\<close> (U+00B6, U+00C2), \<^verbatim>\<open>\[\d+\]\<close>, \<^verbatim>\<open>\s+\<close>, \<^verbatim>\<open>\xa0\<close>.\<close>

definition rx_symbols :: rx where
  "rx_symbols = C (OneOf [CHR 0xB6, CHR 0xC2])"

definition rx_citation :: rx where
  "rx_citation = seqs [C (Lit CHR ''[''), PlusG Digit, C (Lit CHR '']'')]"

definition rx_spaces :: rx where
  "rx_spaces = PlusG Space"

definition rx_nbsp :: rx where
  "rx_nbsp = C (Lit (CHR 0xA0))"

definition clean_text_app :: "string \<Rightarrow> string" where
  "clean_text_app text =
     (let text = re_sub rx_symbols [] text;
          text = re_sub rx_citation [] text;
          text = re_sub rx_spaces '' '' text;
          text = re_sub rx_nbsp '' '' text
      in strip text)"

text \<open>The patterns of \<^verbatim>\<open>clean_text\<close> in \<^verbatim>\<open>model.py\<close>: U+00B6, U+00C2,
  \<^verbatim>\<open><\[\d+\]\<close>, \<^verbatim>\<open>\s+\<close>, \<^verbatim>\<open>\xa0\<close>, \<^verbatim>\<open>\[.*?\]\<close>.\<close>

definition rx_pilcrow :: rx where
  "rx_pilcrow = C (Lit (CHR 0xB6))"

definition rx_acirc :: rx where
  "rx_acirc = C (Lit (CHR 0xC2))"

definition rx_lt_citation :: rx where
  "rx_lt_citation = seqs [C (Lit CHR ''<''), C (Lit CHR ''[''), PlusG Digit, C (Lit CHR '']'')]"

definition rx_bracketed :: rx where
  "rx_bracketed = seqs [C (Lit CHR ''[''), StarL Dot, C (Lit CHR '']'')]"

definition clean_text_model :: "string \<Rightarrow> string" where
  "clean_text_model text =
     (let text = re_sub rx_pilcrow [] text;
          text = re_sub rx_acirc [] text;
          text = re_sub rx_lt_citation [] text;
          text = re_sub rx_spaces '' '' text;
          text = re_sub rx_nbsp '' '' text;
          text = re_sub rx_bracketed '' '' text
      in strip text)"

text \<open>
  The normalisation steps in the words of the specification, for comparison with the
  regular-expression substitutions above: removing the stray symbols, removing each
  bracketed run of digits, collapsing each run of whitespace to one space.
\<close>

definition remove_symbols :: "string \<Rightarrow> string" where
  "remove_symbols s = filter (\<lambda>c. c \<noteq> CHR 0xB6 \<and> c \<noteq> CHR 0xC2) s"

text \<open>A citation marker is an opening bracket, one or more digits, a closing bracket.\<close>

function remove_citations :: "string \<Rightarrow> string" where
  "remove_citations [] = []"
| "remove_citations (c # cs) =
     (if c = CHR ''['' \<and> takeWhile is_digit cs \<noteq> [] \<and> startswith (dropWhile is_digit cs) '']''
      then remove_citations (tl (dropWhile is_digit cs))
      else c # remove_citations cs)"
  by pat_completeness auto
termination
proof (relation "measure length")
  fix c :: char and cs :: string
  have "length (tl (dropWhile is_digit cs)) \<le> length cs"
    using length_dropWhile_le [of is_digit cs] by simp
  then show "(tl (dropWhile is_digit cs), c # cs) \<in> measure length"
    by simp
qed simp_all

function collapse_spaces :: "string \<Rightarrow> string" where
  "collapse_spaces [] = []"
| "collapse_spaces (c # cs) =
     (if is_space c then CHR '' '' # collapse_spaces (dropWhile is_space cs)
      else c # collapse_spaces cs)"
  by pat_completeness auto
termination
  by (relation "measure length") (auto simp: length_dropWhile_le less_Suc_eq_le)

text \<open>Predicates used to state what a normalised text looks like: every whitespace
  character is a single space with no whitespace after it, and the text neither starts nor
  ends with whitespace.\<close>

fun ws_ok :: "string \<Rightarrow> bool" where
  "ws_ok [] = True"
| "ws_ok [c] = (is_space c \<longrightarrow> c = CHR '' '')"
| "ws_ok (c # d # r) = ((is_space c \<longrightarrow> c = CHR '' '' \<and> \<not> is_space d) \<and> ws_ok (d # r))"



section \<open>Parsed documents\<close>

text \<open>
  \<^verbatim>\<open>BeautifulSoup(html, "html.parser")\<close> is a library call; the model starts from its
  result, a forest of text nodes and tags. A tag carries its name, its \<^verbatim>\<open>id\<close> attribute
  and the values of its \<^verbatim>\<open>class\<close> attribute (the only attributes the program reads), and
  its children.
\<close>

datatype node = Text string | Elem string "string option" "string list" "node list"

fun tag_name :: "node \<Rightarrow> string" where
  "tag_name (Elem n i c ch) = n"
| "tag_name (Text t) = []"

fun is_tag :: "node \<Rightarrow> bool" where
  "is_tag (Elem n i c ch) = True"
| "is_tag (Text t) = False"

text \<open>The strings below a list of nodes, in document order.\<close>

fun strings_of :: "node list \<Rightarrow> string list" where
  "strings_of [] = []"
| "strings_of (Text t # ns) = t # strings_of ns"
| "strings_of (Elem n i c ch # ns) = strings_of ch @ strings_of ns"

text \<open>\<^verbatim>\<open>get_text(separator, strip)\<close>: with \<^verbatim>\<open>strip=True\<close> every string is stripped and
  the empty ones are left out.\<close>

definition get_text_of :: "string \<Rightarrow> bool \<Rightarrow> node list \<Rightarrow> string" where
  "get_text_of sep strp ns =
     join sep (if strp then filter (\<lambda>t. t \<noteq> []) (map strip (strings_of ns))
               else strings_of ns)"

definition get_text :: "string \<Rightarrow> bool \<Rightarrow> node \<Rightarrow> string" where
  "get_text sep strp n = get_text_of sep strp [n]"

text \<open>\<^verbatim>\<open>find_all\<close> by tag name, in document order. Each tag found comes with the nodes
  that follow it under the same parent, which is what \<^verbatim>\<open>find_next_sibling\<close> walks.\<close>

fun find_all :: "string list \<Rightarrow> node list \<Rightarrow> (node \<times> node list) list" where
  "find_all names [] = []"
| "find_all names (Text t # ns) = find_all names ns"
| "find_all names (Elem n i c ch # ns) =
     (if n \<in> set names then [(Elem n i c ch, ns)] else [])
     @ find_all names ch @ find_all names ns"

text \<open>\<^verbatim>\<open>find_next_siblings()\<close>: the tags among the following siblings;
  \<^verbatim>\<open>find_next_sibling()\<close>: the first of them; \<^verbatim>\<open>find_next_sibling(name)\<close>: the first with
  that name.\<close>

definition find_next_siblings :: "node list \<Rightarrow> node list" where
  "find_next_siblings sibs = filter is_tag sibs"

definition find_next_sibling :: "node list \<Rightarrow> node option" where
  "find_next_sibling sibs = (case find_next_siblings sibs of [] \<Rightarrow> None | t # ts \<Rightarrow> Some t)"

definition find_next_sibling_named :: "string \<Rightarrow> node list \<Rightarrow> node option" where
  "find_next_sibling_named name sibs = List.find (\<lambda>t. is_tag t \<and> tag_name t = name) sibs"

text \<open>\<^verbatim>\<open>decompose\<close> applied to every tag that satisfies a test on its name, id and classes.\<close>

fun decompose_where :: "(string \<Rightarrow> string option \<Rightarrow> string list \<Rightarrow> bool) \<Rightarrow> node list \<Rightarrow> node list" where
  "decompose_where p [] = []"
| "decompose_where p (Text t # ns) = Text t # decompose_where p ns"
| "decompose_where p (Elem n i c ch # ns) =
     (if p n i c then decompose_where p ns
      else Elem n i c (decompose_where p ch) # decompose_where p ns)"

section \<open>NoiseStripper\<close>

text \<open>\<^verbatim>\<open>remove_noisy_tags\<close> of \<^verbatim>\<open>app.py\<close>.\<close>

definition remove_noisy_tags :: "node list \<Rightarrow> node list" where
  "remove_noisy_tags soup =
     decompose_where (\<lambda>n i c. n \<in> set [''script'', ''style'', ''nav'', ''footer'', ''header'',
        ''form'', ''noscript'', ''iframe'', ''button'', ''input'', ''aside'']) soup"

text \<open>\<^verbatim>\<open>remove_noise\<close> of \<^verbatim>\<open>model.py\<close>: tags by name, then, for each marker in turn, the
  tags whose id contains it and the tags one of whose classes contains it (the test is run
  on each class and on the classes joined by spaces).\<close>

definition id_has :: "string \<Rightarrow> string option \<Rightarrow> bool" where
  "id_has nid i = (case i of None \<Rightarrow> False | Some x \<Rightarrow> x \<noteq> [] \<and> contains nid (lower x))"

definition class_has :: "string \<Rightarrow> string list \<Rightarrow> bool" where
  "class_has nid c =
     ((\<exists>x \<in> set c. x \<noteq> [] \<and> contains nid (lower x))
      \<or> (join '' '' c \<noteq> [] \<and> contains nid (lower (join '' '' c))))"

definition noisy :: "string list" where
  "noisy = [''footer'', ''header'', ''nav'', ''toc'', ''sidebar'', ''masthead'', ''menu'',
            ''cookies'', ''ads'', ''advertisement'', ''promo'', ''newsletter'']"

definition remove_noise :: "node list \<Rightarrow> node list" where
  "remove_noise soup =
     foldl (\<lambda>sp nid. decompose_where (\<lambda>n i c. class_has nid c)
                        (decompose_where (\<lambda>n i c. id_has nid i) sp))
       (decompose_where (\<lambda>n i c. n \<in> set [''head'', ''script'', ''style'', ''nav'', ''footer'',
          ''header'', ''form'', ''noscript'', ''iframe'', ''button'', ''input'', ''aside'',
          ''svg'', ''canvas'', ''link'', ''meta'']) soup)
       noisy"

section \<open>ExtractionCascade of \<^verbatim>\<open>app.py\<close>\<close>

record faq =
  question :: string
  answer :: string

text \<open>The pattern of strategy 1, under the flags IGNORECASE and DOTALL:
  \<^verbatim>\<open>Q(?:uestion)?:?\s*(.*?)(?:A(?:nswer)?:)?\s*(.*?)(?=\nQ|\Z)\<close>\<close>

definition rx_qa_app :: rx where
  "rx_qa_app = seqs [C (LitI CHR ''Q''), Opt (lits_i ''uestion''), Opt (C (LitI CHR '':'')),
     StarG Space, Grp 1 (StarL DotAll),
     Opt (seqs [C (LitI CHR ''A''), Opt (lits_i ''nswer''), C (LitI CHR '':'')]),
     StarG Space, Grp 2 (StarL DotAll),
     Look (Alt (seqs [C (LitI (CHR 0x0A)), C (LitI CHR ''Q'')]) EndZ)]"

text \<open>1. Explicit Q: and A: patterns in the text of the document.\<close>

definition strategy_1 :: "string \<Rightarrow> faq list" where
  "strategy_1 text =
     map (\<lambda>g. \<lparr>question = clean_text_app (g 1), answer = clean_text_app (g 2)\<rparr>)
       (filter (\<lambda>g. strip (g 1) \<noteq> [] \<and> strip (g 2) \<noteq> []) (findall rx_qa_app text))"

text \<open>2. \<^verbatim>\<open>dt\<close> and \<^verbatim>\<open>dd\<close> tags, paired by position.\<close>

definition strategy_2 :: "node list \<Rightarrow> faq list" where
  "strategy_2 soup =
     map (\<lambda>(q, a). \<lparr>question = q, answer = a\<rparr>)
       (filter (\<lambda>(q, a). q \<noteq> [] \<and> a \<noteq> [])
          (map (\<lambda>(dt, dd). (get_text [] True (fst dt), get_text [] True (fst dd)))
             (zip (find_all [''dt''] soup) (find_all [''dd''] soup))))"

text \<open>3. A heading followed by a paragraph-like tag.\<close>

definition strategy_3 :: "node list \<Rightarrow> faq list" where
  "strategy_3 soup =
     concat (map (\<lambda>(heading, sibs).
        (case find_next_sibling sibs of
           None \<Rightarrow> []
         | Some next_tag \<Rightarrow>
             if tag_name next_tag \<in> set [''p'', ''div'', ''li'', ''span'']
             then (let q = get_text [] True heading; a = get_text [] True next_tag
                   in if endswith q ''?'' \<and> a \<noteq> [] then [\<lparr>question = q, answer = a\<rparr>] else [])
             else []))
       (find_all [''h1'', ''h2'', ''h3'', ''h4''] soup))"

text \<open>4. The broader search over adjacent text fragments.\<close>

definition strategy_4 :: "node list \<Rightarrow> faq list" where
  "strategy_4 soup =
     (let texts = map (\<lambda>t. get_text '' '' True (fst t))
                    (find_all [''p'', ''div'', ''li'', ''span'', ''h2'', ''h3'', ''h4'',
                               ''strong'', ''b''] soup)
      in map (\<lambda>(q, a). \<lparr>question = q, answer = a\<rparr>)
           (filter (\<lambda>(q, a). (startswith q ''Q'' \<or> endswith q ''?'') \<and> startswith a ''A'')
              (zip texts (tl texts))))"

text \<open>\<^verbatim>\<open>extract_faqs_from_html\<close>, from the parsed document on: the list \<open>faqs\<close> grows
  strategy by strategy and is returned as soon as it is not empty.\<close>

definition extract_faqs_from_soup :: "node list \<Rightarrow> faq list" where
  "extract_faqs_from_soup soup0 =
     (let faqs = [];
          soup = remove_noisy_tags soup0;
          text = get_text_of [CHR 0x0A] True soup;
          faqs = faqs @ strategy_1 text
      in if faqs \<noteq> [] then faqs
         else (let faqs = faqs @ strategy_2 soup
               in if faqs \<noteq> [] then faqs
                  else (let faqs = faqs @ strategy_3 soup
                        in if faqs \<noteq> [] then faqs
                           else faqs @ strategy_4 soup)))"

definition extract_faqs_from_html :: "(string \<Rightarrow> node list) \<Rightarrow> string \<Rightarrow> faq list" where
  "extract_faqs_from_html parse html = extract_faqs_from_soup (parse html)"

section \<open>Extraction of \<^verbatim>\<open>model.py\<close>\<close>

text \<open>The dictionaries \<^verbatim>\<open>{"Q": q, "A": a}\<close>.\<close>

record qa =
  qa_Q :: string
  qa_A :: string

text \<open>The loop state: \<^verbatim>\<open>faqs\<close>, \<^verbatim>\<open>seen_q\<close>, \<^verbatim>\<open>seen_a\<close>.\<close>

type_synonym ext_state = "qa list \<times> string set \<times> string set"

text \<open>The pattern of mode A, under the flags DOTALL and IGNORECASE:
  \<^verbatim>\<open>Q[:\-]?\s*(.*?)\n\s*A[:\-]?\s*(.*?)(?=\nQ[:\-]|\Z)\<close>\<close>

definition rx_qa_model :: rx where
  "rx_qa_model = seqs [C (LitI CHR ''Q''), Opt (C (OneOf '':-'')), StarG Space,
     Grp 1 (StarL DotAll), C (LitI (CHR 0x0A)), StarG Space,
     C (LitI CHR ''A''), Opt (C (OneOf '':-'')), StarG Space, Grp 2 (StarL DotAll),
     Look (Alt (seqs [C (LitI (CHR 0x0A)), C (LitI CHR ''Q''), C (OneOf '':-'')]) EndZ)]"

text \<open>The body shared by modes A and B.\<close>

definition accept :: "string \<Rightarrow> string \<Rightarrow> ext_state \<Rightarrow> ext_state" where
  "accept q a st =
     (case st of (faqs, seen_q, seen_a) \<Rightarrow>
        if q \<noteq> [] \<and> a \<noteq> [] \<and> q \<notin> seen_q \<and> a \<notin> seen_a
        then (faqs @ [\<lparr>qa_Q = q, qa_A = a\<rparr>], insert q seen_q, insert a seen_a)
        else st)"

definition mode_a :: "string \<Rightarrow> ext_state \<Rightarrow> ext_state" where
  "mode_a text st =
     foldl (\<lambda>st g. accept (clean_text_model (g 1)) (clean_text_model (g 2)) st) st
       (findall rx_qa_model text)"

definition mode_b :: "node list \<Rightarrow> ext_state \<Rightarrow> ext_state" where
  "mode_b soup st =
     foldl (\<lambda>st (dt, sibs).
        (case find_next_sibling_named ''dd'' sibs of
           None \<Rightarrow> st
         | Some dd \<Rightarrow> accept (clean_text_model (get_text [] False dt))
                        (clean_text_model (get_text [] False dd)) st))
       st (find_all [''dt''] soup)"

definition answer_parts :: "node list \<Rightarrow> string list" where
  "answer_parts sibs =
     map (\<lambda>sibling. clean_text_model (get_text '' '' True sibling))
       (filter (\<lambda>sibling. tag_name sibling \<in> set [''p'', ''dd'', ''ul'', ''ol''])
          (takeWhile (\<lambda>sibling. tag_name sibling \<notin> set [''h2'', ''h3'', ''h4'', ''dt'', ''div''])
             (find_next_siblings sibs)))"

definition mode_c_step :: "ext_state \<Rightarrow> node \<times> node list \<Rightarrow> ext_state" where
  "mode_c_step st hs =
     (case st of (faqs, seen_q, seen_a) \<Rightarrow>
        (let q = clean_text_model (get_text [] False (fst hs))
         in if q = [] \<or> q \<in> seen_q then st
            else (let a = join '' '' (answer_parts (snd hs))
                  in if a \<noteq> [] \<and> a \<notin> seen_a
                     then (faqs @ [\<lparr>qa_Q = q, qa_A = a\<rparr>], insert q seen_q, insert a seen_a)
                     else st)))"

definition mode_c :: "node list \<Rightarrow> ext_state \<Rightarrow> ext_state" where
  "mode_c soup st = foldl mode_c_step st (find_all [''h2'', ''h3'', ''h4''] soup)"

text \<open>\<^verbatim>\<open>extract_faq\<close>, from the parsed document on: the three modes run one after the other
  on the same \<open>faqs\<close>, \<open>seen_q\<close> and \<open>seen_a\<close>.\<close>

definition extract_faq_soup :: "node list \<Rightarrow> qa list" where
  "extract_faq_soup soup0 =
     (let soup = remove_noise soup0;
          st = ([], {}, {});
          text = get_text_of [CHR 0x0A] False soup;
          st = mode_a text st;
          st = mode_b soup st;
          st = mode_c soup st
      in fst st)"

section \<open>Definitions used to state the properties\<close>





text \<open>What fires first: the results of the four strategies of \<^verbatim>\<open>app.py\<close> in their order,
  and the first of a list of results that is not empty.\<close>

definition strategy_results :: "node list \<Rightarrow> faq list list" where
  "strategy_results soup0 =
     (let soup = remove_noisy_tags soup0
      in [strategy_1 (get_text_of [CHR 0x0A] True soup), strategy_2 soup,
          strategy_3 soup, strategy_4 soup])"

definition first_nonempty :: "'a list list \<Rightarrow> 'a list" where
  "first_nonempty rs = (case List.find (\<lambda>r. r \<noteq> []) rs of None \<Rightarrow> [] | Some r \<Rightarrow> r)"

text \<open>What a citation marker is, in the words of the specification: an opening bracket, one or
  more digits, a closing bracket; and whether a text contains one.\<close>

definition starts_citation :: "string \<Rightarrow> bool" where
  "starts_citation s =
     (case s of [] \<Rightarrow> False
      | c # cs \<Rightarrow> c = CHR ''['' \<and> takeWhile is_digit cs \<noteq> []
                  \<and> startswith (dropWhile is_digit cs) '']'')"

fun has_citation :: "string \<Rightarrow> bool" where
  "has_citation [] = False"
| "has_citation (c # cs) = (starts_citation (c # cs) \<or> has_citation cs)"



text \<open>Example documents.\<close>

definition doc_qa_text :: string where
  "doc_qa_text = ''Q: What?'' @ [CHR 0x0A] @ ''A: This.'' @ [CHR 0x0A] @ ''Q: Why?''
                 @ [CHR 0x0A] @ ''A: Because.''"

definition doc_mixed :: "node list" where
  "doc_mixed = [Elem ''h2'' None [] [Text ''How?''], Elem ''p'' None [] [Text ''Like this.''],
                Text (''Q: What?'' @ [CHR 0x0A] @ ''A: This.'')]"

definition doc_dl :: "node list" where
  "doc_dl = [Elem ''dl'' None []
      [Elem ''dt'' None [] [Text ''One''], Elem ''dd'' None [] [Text ''Same''],
       Elem ''dt'' None [] [Text ''Two''], Elem ''dd'' None [] [Text ''Same'']]]"



definition doc_joined_parts :: "node list" where
  "doc_joined_parts = [Elem ''h2'' None [] [Text ''T1''], Elem ''p'' None [] [Text ''x''],
                       Elem ''p'' None [] [], Elem ''h2'' None [] [Text ''T2''],
                       Elem ''p'' None [] [Text ''x'']]"



section \<open>FetchCascade\<close>

text \<open>
  The network, the rendering session and the browser are outside the program: a run is
  given their answers. Each fetch either returns the page text or raises an exception, here
  the message of the exception; only exceptions below \<^verbatim>\<open>Exception\<close> are modelled, which
  are the ones \<^verbatim>\<open>except Exception\<close> catches. \<open>requests_get\<close> is \<^verbatim>\<open>requests.get\<close> followed
  by \<^verbatim>\<open>raise_for_status\<close> and \<^verbatim>\<open>.text\<close>; \<open>html_session\<close> is \<open>None\<close> when
  \<^verbatim>\<open>requests_html\<close> could not be imported, and otherwise the rendered page;
  \<open>selenium\<close> is \<^verbatim>\<open>get_page_source_selenium\<close>; \<open>parse\<close> is the HTML parser.
\<close>

type_synonym exn = string

record env =
  requests_get :: "string \<Rightarrow> exn + string"
  html_session :: "(string \<Rightarrow> exn + string) option"
  selenium :: "string \<Rightarrow> exn + string"
  parse :: "string \<Rightarrow> node list"

text \<open>What the program shows to the user through \<^verbatim>\<open>st.error\<close>, \<^verbatim>\<open>st.info\<close>,
  \<^verbatim>\<open>st.success\<close> and \<^verbatim>\<open>st.warning\<close>, in order.\<close>

datatype ui_event = StError string | StInfo string | StSuccess string | StWarning string

text \<open>The three \<^verbatim>\<open>try\<close> blocks of \<^verbatim>\<open>fetch_and_extract_all\<close> in \<^verbatim>\<open>app.py\<close>. Each gives what
  it showed, the value of \<open>faqs\<close> after it, and whether it returned from the function.\<close>

definition tier_requests :: "env \<Rightarrow> string \<Rightarrow> ui_event list \<times> faq list \<times> bool" where
  "tier_requests e url =
     (case requests_get e url of
        Inl err \<Rightarrow>
          ([StError (''[!] Requests failed: '' @ err @ ''. Attempting fallback...'')], [], False)
      | Inr html \<Rightarrow>
          (let faqs = extract_faqs_from_html (parse e) html
           in ([], faqs, faqs \<noteq> [])))"

definition tier_requests_html :: "env \<Rightarrow> string \<Rightarrow> faq list \<Rightarrow> ui_event list \<times> faq list \<times> bool" where
  "tier_requests_html e url faqs0 =
     (case html_session e of
        None \<Rightarrow> ([], faqs0, False)
      | Some render \<Rightarrow>
          if faqs0 = []
          then (case render url of
                  Inl err \<Rightarrow>
                    ([StInfo ''Falling back to requests_html for JS rendering...'',
                      StError (''[!] requests_html failed: '' @ err
                               @ ''. Attempting final fallback...'')], faqs0, False)
                | Inr html \<Rightarrow>
                    (let faqs = extract_faqs_from_html (parse e) html
                     in ([StInfo ''Falling back to requests_html for JS rendering...''],
                         faqs, faqs \<noteq> [])))
          else ([], faqs0, False))"

definition tier_selenium :: "env \<Rightarrow> string \<Rightarrow> faq list \<Rightarrow> ui_event list \<times> faq list" where
  "tier_selenium e url faqs0 =
     (if faqs0 = []
      then (case selenium e url of
              Inl err \<Rightarrow>
                ([StInfo ''Falling back to Selenium for full browser automation...'',
                  StError (''[!] Selenium failed: '' @ err @ ''.'')], [])
            | Inr html \<Rightarrow>
                ([StInfo ''Falling back to Selenium for full browser automation...''],
                 extract_faqs_from_html (parse e) html))
      else ([], faqs0))"

text \<open>\<^verbatim>\<open>fetch_and_extract_all\<close>: what it showed, and the exception it raised or the list it
  returned.\<close>

definition fetch_and_extract_all :: "env \<Rightarrow> string \<Rightarrow> ui_event list \<times> (exn + faq list)" where
  "fetch_and_extract_all e url =
     (case tier_requests e url of (log1, faqs1, ret1) \<Rightarrow>
        if ret1 then (log1, Inr faqs1)
        else (case tier_requests_html e url faqs1 of (log2, faqs2, ret2) \<Rightarrow>
          if ret2 then (log1 @ log2, Inr faqs2)
          else (case tier_selenium e url faqs2 of (log3, faqs3) \<Rightarrow>
            (log1 @ log2 @ log3, Inr faqs3))))"

text \<open>\<^verbatim>\<open>fetch_html\<close> and \<^verbatim>\<open>extract_faq\<close> of \<^verbatim>\<open>model.py\<close>.\<close>

definition fetch_html :: "env \<Rightarrow> string \<Rightarrow> ui_event list \<times> (exn + string)" where
  "fetch_html e url =
     (case (case requests_get e url of
              Inl err \<Rightarrow> ([StError (''[!] Requests failed: '' @ err)], [])
            | Inr text \<Rightarrow> ([], text)) of
        (log1, html) \<Rightarrow>
          (case html_session e of
             None \<Rightarrow> (log1, Inr html)
           | Some render \<Rightarrow>
               if contains ''faq'' (lower url) \<or> strip html = []
               then (case render url of
                       Inl err \<Rightarrow> (log1 @ [StError (''[!] JS rendering failed: '' @ err)], Inr html)
                     | Inr rendered \<Rightarrow> (log1, Inr rendered))
               else (log1, Inr html)))"

definition extract_faq :: "env \<Rightarrow> string \<Rightarrow> ui_event list \<times> (exn + qa list)" where
  "extract_faq e url =
     (case fetch_html e url of
        (log, Inl err) \<Rightarrow> (log, Inl err)
      | (log, Inr html) \<Rightarrow>
          if html = [] then (log, Inr []) else (log, Inr (extract_faq_soup (parse e html))))"

section \<open>JSON\<close>

text \<open>
  The values that pass through the cache: strings, lists and dictionaries, and the other
  JSON scalars (numbers, \<^verbatim>\<open>true\<close>, \<^verbatim>\<open>false\<close>, \<^verbatim>\<open>null\<close>, \<^verbatim>\<open>NaN\<close>, the infinities), which are kept
  as the text that denotes them. A dictionary is a list of pairs with distinct keys, in
  insertion order.
\<close>

datatype pyval = JStr string | JArr "pyval list" | JObj "(string \<times> pyval) list" | JLit string

definition dq :: char where "dq = CHR 0x22"
definition bsl :: char where "bsl = CHR 0x5C"

text \<open>\<^verbatim>\<open>d[k] = v\<close> and \<^verbatim>\<open>dict(pairs)\<close>.\<close>

fun dict_set :: "(string \<times> 'v) list \<Rightarrow> string \<Rightarrow> 'v \<Rightarrow> (string \<times> 'v) list" where
  "dict_set [] k v = [(k, v)]"
| "dict_set ((k', v') # d) k v = (if k' = k then (k, v) # d else (k', v') # dict_set d k v)"

definition dict_of :: "(string \<times> 'v) list \<Rightarrow> (string \<times> 'v) list" where
  "dict_of pairs = foldl (\<lambda>d (k, v). dict_set d k v) [] pairs"

text \<open>\<^verbatim>\<open>json.dumps\<close> with \<^verbatim>\<open>ensure_ascii=False\<close>: the escapes of a string.\<close>

definition hex_digit :: "nat \<Rightarrow> char" where
  "hex_digit n = ''0123456789abcdef'' ! (n mod 16)"

definition escape_chr :: "char \<Rightarrow> string" where
  "escape_chr c =
     (if c = bsl then [bsl, bsl]
      else if c = dq then [bsl, dq]
      else if c = CHR 0x08 then [bsl, CHR ''b'']
      else if c = CHR 0x0C then [bsl, CHR ''f'']
      else if c = CHR 0x0A then [bsl, CHR ''n'']
      else if c = CHR 0x0D then [bsl, CHR ''r'']
      else if c = CHR 0x09 then [bsl, CHR ''t'']
      else if (of_char c :: nat) < 32
      then [bsl, CHR ''u'', CHR ''0'', CHR ''0'', hex_digit (of_char c div 16), hex_digit (of_char c)]
      else [c])"

definition encode_str :: "string \<Rightarrow> string" where
  "encode_str s = dq # concat (map escape_chr s) @ [dq]"

text \<open>\<^verbatim>\<open>json.dumps(v)\<close>: the separators are \<^verbatim>\<open>", "\<close> and \<^verbatim>\<open>": "\<close>.\<close>

fun dumps :: "pyval \<Rightarrow> string"
  and dumps_items :: "pyval list \<Rightarrow> string"
  and dumps_members :: "(string \<times> pyval) list \<Rightarrow> string" where
  "dumps (JStr s) = encode_str s"
| "dumps (JLit t) = t"
| "dumps (JArr vs) = (if vs = [] then ''[]'' else ''['' @ dumps_items vs @ '']'')"
| "dumps (JObj kvs) = (if kvs = [] then ''{}'' else ''{'' @ dumps_members kvs @ ''}'')"
| "dumps_items [] = []"
| "dumps_items (v # vs) = dumps v @ (if vs = [] then [] else '', '' @ dumps_items vs)"
| "dumps_members [] = []"
| "dumps_members (kv # kvs) =
     encode_str (fst kv) @ '': '' @ dumps (snd kv)
     @ (if kvs = [] then [] else '', '' @ dumps_members kvs)"

text \<open>\<^verbatim>\<open>json.dump(v, f, indent=2)\<close>: every item on a line of its own, indented by two spaces
  for each level; the item separator is \<^verbatim>\<open>","\<close>.\<close>

definition newline_indent :: "nat \<Rightarrow> string" where
  "newline_indent level = CHR 0x0A # replicate (2 * level) CHR '' ''"

fun dumps_indent :: "nat \<Rightarrow> pyval \<Rightarrow> string"
  and dumps_indent_items :: "nat \<Rightarrow> pyval list \<Rightarrow> string"
  and dumps_indent_members :: "nat \<Rightarrow> (string \<times> pyval) list \<Rightarrow> string" where
  "dumps_indent level (JStr s) = encode_str s"
| "dumps_indent level (JLit t) = t"
| "dumps_indent level (JArr vs) =
     (if vs = [] then ''[]''
      else ''['' @ newline_indent (Suc level) @ dumps_indent_items (Suc level) vs
           @ newline_indent level @ '']'')"
| "dumps_indent level (JObj kvs) =
     (if kvs = [] then ''{}''
      else ''{'' @ newline_indent (Suc level) @ dumps_indent_members (Suc level) kvs
           @ newline_indent level @ ''}'')"
| "dumps_indent_items level [] = []"
| "dumps_indent_items level (v # vs) =
     dumps_indent level v
     @ (if vs = [] then [] else '','' @ newline_indent level @ dumps_indent_items level vs)"
| "dumps_indent_members level [] = []"
| "dumps_indent_members level (kv # kvs) =
     encode_str (fst kv) @ '': '' @ dumps_indent level (snd kv)
     @ (if kvs = [] then [] else '','' @ newline_indent level @ dumps_indent_members level kvs)"

text \<open>
  \<^verbatim>\<open>json.loads\<close>. \<open>None\<close> is \<^verbatim>\<open>JSONDecodeError\<close>. An escape \<^verbatim>\<open>\uXXXX\<close> above U+00FF denotes
  a character outside the model and is rejected here. The descent is bounded by a counter
  that starts above the length of the text; every level of nesting and every item of a
  document takes at least two characters and at most two steps of the counter.
\<close>

definition is_json_ws :: "char \<Rightarrow> bool" where
  "is_json_ws c = (c \<in> set [CHR '' '', CHR 0x09, CHR 0x0A, CHR 0x0D])"

definition skip_ws :: "string \<Rightarrow> string" where
  "skip_ws s = dropWhile is_json_ws s"

definition hex_val :: "char \<Rightarrow> nat option" where
  "hex_val c = map_of (zip ''0123456789abcdefABCDEF''
                 [0, 1, 2, 3, 4, 5, 6, 7, 8, 9, 10, 11, 12, 13, 14, 15, 10, 11, 12, 13, 14, 15]) c"

definition unescape :: "char \<Rightarrow> char option" where
  "unescape c = map_of [(dq, dq), (bsl, bsl), (CHR ''/'', CHR ''/''), (CHR ''b'', CHR 0x08),
     (CHR ''f'', CHR 0x0C), (CHR ''n'', CHR 0x0A), (CHR ''r'', CHR 0x0D), (CHR ''t'', CHR 0x09)] c"

text \<open>\<open>scanstring s\<close> reads a string whose opening quote has been read.\<close>

fun scanstring :: "string \<Rightarrow> (string \<times> string) option" where
  "scanstring [] = None"
| "scanstring (c # cs) =
     (if c = dq then Some ([], cs)
      else if c = bsl then
        (case cs of
           [] \<Rightarrow> None
         | e # r \<Rightarrow>
             if e = CHR ''u'' then
               (case r of
                  h1 # h2 # h3 # h4 # r' \<Rightarrow>
                    (case (hex_val h1, hex_val h2, hex_val h3, hex_val h4) of
                       (Some a, Some b, Some c', Some d) \<Rightarrow>
                         if a = 0 \<and> b = 0
                         then (case scanstring r' of
                                 None \<Rightarrow> None
                               | Some (t, rest) \<Rightarrow> Some (char_of (16 * c' + d) # t, rest))
                         else None
                     | _ \<Rightarrow> None)
                | _ \<Rightarrow> None)
             else
               (case unescape e of
                  None \<Rightarrow> None
                | Some x \<Rightarrow>
                    (case scanstring r of
                       None \<Rightarrow> None
                     | Some (t, rest) \<Rightarrow> Some (x # t, rest))))
      else if (of_char c :: nat) < 32 then None
      else (case scanstring cs of
              None \<Rightarrow> None
            | Some (t, rest) \<Rightarrow> Some (c # t, rest)))"

text \<open>The pattern of a number:
  \<^verbatim>\<open>(-?(?:0|[1-9][0-9]*))(\.[0-9]+)?([eE][-+]?[0-9]+)?\<close>\<close>

definition rx_number :: rx where
  "rx_number = seqs [Opt (C (Lit CHR ''-'')),
     Alt (C (Lit CHR ''0'')) (Seq (C (OneOf ''123456789'')) (StarG Digit)),
     Opt (Seq (C (Lit CHR ''.'')) (PlusG Digit)),
     Opt (seqs [C (OneOf ''eE''), Opt (C (OneOf ''-+'')), PlusG Digit])]"

definition scan_literal :: "string \<Rightarrow> (pyval \<times> string) option" where
  "scan_literal s =
     (if startswith s ''null'' then Some (JLit ''null'', drop 4 s)
      else if startswith s ''true'' then Some (JLit ''true'', drop 4 s)
      else if startswith s ''false'' then Some (JLit ''false'', drop 5 s)
      else (case match_here rx_number s of
              Some (n, g) \<Rightarrow> Some (JLit (take n s), drop n s)
            | None \<Rightarrow>
                if startswith s ''NaN'' then Some (JLit ''NaN'', drop 3 s)
                else if startswith s ''Infinity'' then Some (JLit ''Infinity'', drop 8 s)
                else if startswith s ''-Infinity'' then Some (JLit ''-Infinity'', drop 9 s)
                else None))"

fun scan_once :: "nat \<Rightarrow> string \<Rightarrow> (pyval \<times> string) option"
  and scan_array :: "nat \<Rightarrow> pyval list \<Rightarrow> string \<Rightarrow> (pyval \<times> string) option"
  and scan_object :: "nat \<Rightarrow> (string \<times> pyval) list \<Rightarrow> string \<Rightarrow> (pyval \<times> string) option" where
  "scan_once 0 s = None"
| "scan_once (Suc n) [] = None"
| "scan_once (Suc n) (c # cs) =
     (if c = dq then
        (case scanstring cs of None \<Rightarrow> None | Some (t, rest) \<Rightarrow> Some (JStr t, rest))
      else if c = CHR ''{'' then
        (case skip_ws cs of
           [] \<Rightarrow> None
         | d # r \<Rightarrow>
             if d = CHR ''}'' then Some (JObj [], r)
             else if d = dq then scan_object n [] r
             else None)
      else if c = CHR ''['' then
        (case skip_ws cs of
           [] \<Rightarrow> None
         | d # r \<Rightarrow>
             if d = CHR '']'' then Some (JArr [], r)
             else scan_array n [] (d # r))
      else scan_literal (c # cs))"
| "scan_array 0 values s = None"
| "scan_array (Suc n) values s =
     (case scan_once n s of
        None \<Rightarrow> None
      | Some (v, rest) \<Rightarrow>
          (case skip_ws rest of
             [] \<Rightarrow> None
           | d # r \<Rightarrow>
               if d = CHR '']'' then Some (JArr (values @ [v]), r)
               else if d = CHR '','' then scan_array n (values @ [v]) (skip_ws r)
               else None))"
| "scan_object 0 pairs s = None"
| "scan_object (Suc n) pairs s =
     (case scanstring s of
        None \<Rightarrow> None
      | Some (key, rest) \<Rightarrow>
          (case skip_ws rest of
             [] \<Rightarrow> None
           | colon # r \<Rightarrow>
               if colon = CHR '':'' then
                 (case scan_once n (skip_ws r) of
                    None \<Rightarrow> None
                  | Some (v, rest') \<Rightarrow>
                      (case skip_ws rest' of
                         [] \<Rightarrow> None
                       | d # r' \<Rightarrow>
                           if d = CHR ''}'' then Some (JObj (dict_of (pairs @ [(key, v)])), r')
                           else if d = CHR '','' then
                             (case skip_ws r' of
                                [] \<Rightarrow> None
                              | q # r'' \<Rightarrow>
                                  if q = dq then scan_object n (pairs @ [(key, v)]) r''
                                  else None)
                           else None))
               else None))"

definition loads :: "string \<Rightarrow> pyval option" where
  "loads s =
     (case scan_once (Suc (length s)) (skip_ws s) of
        None \<Rightarrow> None
      | Some (v, rest) \<Rightarrow> if skip_ws rest = [] then Some v else None)"

section \<open>FaqStore\<close>

text \<open>\<^verbatim>\<open>url in faq_store\<close>, \<^verbatim>\<open>faq_store[url]\<close> and \<^verbatim>\<open>faq_store[url] = faqs\<close> on whatever
  value the cache file held.\<close>

definition py_contains :: "pyval \<Rightarrow> string \<Rightarrow> exn + bool" where
  "py_contains store url =
     (case store of
        JObj kvs \<Rightarrow> Inr (url \<in> set (map fst kvs))
      | JArr vs \<Rightarrow> Inr (JStr url \<in> set vs)
      | JStr s \<Rightarrow> Inr (contains url s)
      | JLit t \<Rightarrow> Inl ''TypeError'')"

definition py_getitem :: "pyval \<Rightarrow> string \<Rightarrow> exn + pyval" where
  "py_getitem store url =
     (case store of
        JObj kvs \<Rightarrow> (case map_of kvs url of None \<Rightarrow> Inl ''KeyError'' | Some v \<Rightarrow> Inr v)
      | _ \<Rightarrow> Inl ''TypeError'')"

definition py_setitem :: "pyval \<Rightarrow> string \<Rightarrow> pyval \<Rightarrow> exn + pyval" where
  "py_setitem store url v =
     (case store of
        JObj kvs \<Rightarrow> Inr (JObj (dict_set kvs url v))
      | _ \<Rightarrow> Inl ''TypeError'')"

text \<open>The truth value of a Python value.\<close>

definition truthy :: "pyval \<Rightarrow> bool" where
  "truthy v =
     (case v of
        JStr s \<Rightarrow> s \<noteq> []
      | JArr vs \<Rightarrow> vs \<noteq> []
      | JObj kvs \<Rightarrow> kvs \<noteq> []
      | JLit t \<Rightarrow> t \<notin> set [''null'', ''false'', ''0'', ''-0'', ''0.0'', ''-0.0''])"

text \<open>\<^verbatim>\<open>len(v)\<close>.\<close>

definition py_len :: "pyval \<Rightarrow> exn + nat" where
  "py_len v =
     (case v of
        JStr s \<Rightarrow> Inr (length s)
      | JArr vs \<Rightarrow> Inr (length vs)
      | JObj kvs \<Rightarrow> Inr (length kvs)
      | JLit t \<Rightarrow> Inl ''TypeError'')"

text \<open>The lists of pairs as Python values.\<close>

definition faqs_val :: "faq list \<Rightarrow> pyval" where
  "faqs_val faqs =
     JArr (map (\<lambda>p. JObj [(''question'', JStr (question p)), (''answer'', JStr (answer p))]) faqs)"

definition qas_val :: "qa list \<Rightarrow> pyval" where
  "qas_val faqs = JArr (map (\<lambda>p. JObj [(''Q'', JStr (qa_Q p)), (''A'', JStr (qa_A p))]) faqs)"

text \<open>The cache file: \<open>None\<close> when it does not exist, else its text. \<^verbatim>\<open>load_faq_cache\<close> of
  \<^verbatim>\<open>app.py\<close>; the module-level loading of \<^verbatim>\<open>model.py\<close> is the same code.\<close>

definition load_faq_cache :: "string option \<Rightarrow> pyval" where
  "load_faq_cache file =
     (case file of
        None \<Rightarrow> JObj []
      | Some text \<Rightarrow> (case loads text of None \<Rightarrow> JObj [] | Some v \<Rightarrow> v))"

text \<open>\<^verbatim>\<open>save_faq_cache\<close> of \<^verbatim>\<open>app.py\<close>: the text written to the file.\<close>

definition save_faq_cache :: "pyval \<Rightarrow> string" where
  "save_faq_cache faq_store = dumps_indent 0 faq_store"

text \<open>\<^verbatim>\<open>save_faq_store\<close> of \<^verbatim>\<open>model.py\<close>: one line for each entry; \<^verbatim>\<open>.items()\<close> exists on
  dictionaries only.\<close>

definition save_faq_store :: "pyval \<Rightarrow> exn + string" where
  "save_faq_store faq_store =
     (case faq_store of
        JObj kvs \<Rightarrow>
          Inr (concat (map (\<lambda>(key, value).
                 dumps (JObj [(''url'', JStr key), (''faqs'', value)]) @ [CHR 0x0A]) kvs))
      | _ \<Rightarrow> Inl ''AttributeError'')"

text \<open>The state of a run of the script: the store, the cache file, and what was shown.\<close>

record run_state =
  faq_store :: pyval
  data_file :: "string option"
  shown :: "ui_event list"

text \<open>\<^verbatim>\<open>len(faqs)\<close> in decimal.\<close>

function dec :: "nat \<Rightarrow> string" where
  "dec n = (if n < 10 then [char_of (48 + n)] else dec (n div 10) @ [char_of (48 + n mod 10)])"
  by pat_completeness auto
termination
  by (relation "measure id") auto

text \<open>
  The request handling of \<^verbatim>\<open>app.py\<close> (the body of \<^verbatim>\<open>if st.button(...)\<close>, up to the
  success or warning message): the exception raised, or the new state and \<open>faqs\<close>.
\<close>

definition handle_request_app :: "env \<Rightarrow> string \<Rightarrow> run_state \<Rightarrow> exn + (run_state \<times> pyval)" where
  "handle_request_app e url st =
     (if url = [] then Inr (st, JArr [])
      else
        (case (case py_contains (faq_store st) url of
                 Inl err \<Rightarrow> Inl err
               | Inr True \<Rightarrow>
                   (case py_getitem (faq_store st) url of
                      Inl err \<Rightarrow> Inl err
                    | Inr faqs \<Rightarrow>
                        Inr (st\<lparr>shown := shown st @ [StInfo ''Loaded FAQs from cache '']\<rparr>, faqs))
               | Inr False \<Rightarrow>
                   (case fetch_and_extract_all e url of
                      (log, Inl err) \<Rightarrow> Inl err
                    | (log, Inr faqs) \<Rightarrow>
                        if faqs \<noteq> [] then
                          (case py_setitem (faq_store st) url (faqs_val faqs) of
                             Inl err \<Rightarrow> Inl err
                           | Inr store' \<Rightarrow>
                               Inr (st\<lparr>faq_store := store',
                                       data_file := Some (save_faq_cache store'),
                                       shown := shown st @ log\<rparr>, faqs_val faqs))
                        else Inr (st\<lparr>shown := shown st @ log\<rparr>, faqs_val faqs))) of
           Inl err \<Rightarrow> Inl err
         | Inr (st', faqs) \<Rightarrow>
             if truthy faqs
             then (case py_len faqs of
                     Inl err \<Rightarrow> Inl err
                   | Inr n \<Rightarrow>
                       Inr (st'\<lparr>shown := shown st' @
                              [StSuccess (''Successfully extracted '' @ dec n @ '' FAQs!'')]\<rparr>,
                            faqs))
             else Inr (st'\<lparr>shown := shown st' @
                        [StWarning ''No FAQs could be extracted from this URL.'']\<rparr>, faqs)))"

text \<open>The request handling of \<^verbatim>\<open>model.py\<close> (the body of \<^verbatim>\<open>if url:\<close>, up to the lookup or
  the caching).\<close>

definition handle_request_model :: "env \<Rightarrow> string \<Rightarrow> run_state \<Rightarrow> exn + (run_state \<times> pyval)" where
  "handle_request_model e url st =
     (if url = [] then Inr (st, JArr [])
      else
        (case py_contains (faq_store st) url of
           Inl err \<Rightarrow> Inl err
         | Inr True \<Rightarrow>
             (case py_getitem (faq_store st) url of
                Inl err \<Rightarrow> Inl err
              | Inr faqs \<Rightarrow>
                  Inr (st\<lparr>shown := shown st @ [StInfo ''Loaded FAQs from cache'']\<rparr>, faqs))
         | Inr False \<Rightarrow>
             (case extract_faq e url of
                (log, Inl err) \<Rightarrow> Inl err
              | (log, Inr faqs) \<Rightarrow>
                  (case py_setitem (faq_store st) url (qas_val faqs) of
                     Inl err \<Rightarrow> Inl err
                   | Inr store' \<Rightarrow>
                       (case save_faq_store store' of
                          Inl err \<Rightarrow> Inl err
                        | Inr text \<Rightarrow>
                            Inr (st\<lparr>faq_store := store', data_file := Some text,
                                    shown := shown st @ log @
                                      [StSuccess (''Extracted '' @ dec (length faqs)
                                                  @ '' FAQs and cached.'')]\<rparr>,
                                 qas_val faqs))))))"

text \<open>
  One run of the script. Streamlit runs the script from the top for every request, so each
  request starts with the module-level loading of the store from the cache file; what one
  request leaves to the next is the file.
\<close>

definition run_app :: "env \<Rightarrow> string \<Rightarrow> string option \<Rightarrow> exn + (run_state \<times> pyval)" where
  "run_app e url file =
     handle_request_app e url \<lparr>faq_store = load_faq_cache file, data_file = file, shown = []\<rparr>"

definition run_model :: "env \<Rightarrow> string \<Rightarrow> string option \<Rightarrow> exn + (run_state \<times> pyval)" where
  "run_model e url file =
     handle_request_model e url \<lparr>faq_store = load_faq_cache file, data_file = file, shown = []\<rparr>"

section \<open>Definitions used to state the properties of the cascade and the store\<close>


definition env_dead :: env where
  "env_dead = \<lparr>requests_get = (\<lambda>u. Inl ''timed out''),
                html_session = Some (\<lambda>u. Inl ''render failed''),
                selenium = (\<lambda>u. Inl ''no browser''), parse = (\<lambda>h. [])\<rparr>"

definition env_static :: env where
  "env_static = \<lparr>requests_get = (\<lambda>u. Inr ''<dl>...</dl>''), html_session = None,
                  selenium = (\<lambda>u. Inl ''no browser''), parse = (\<lambda>h. doc_dl)\<rparr>"

text \<open>What the tiers after the plain request produce in \<^verbatim>\<open>app.py\<close>: the pairs of the rendered
  page if the session is available, answers, and yields pairs; else the pairs of the
  browser's page; else nothing.\<close>

definition later_tiers :: "env \<Rightarrow> string \<Rightarrow> faq list" where
  "later_tiers e url =
     (let t2 = (case html_session e of
                  None \<Rightarrow> []
                | Some render \<Rightarrow>
                    (case render url of Inl err \<Rightarrow> [] | Inr h \<Rightarrow> extract_faqs_from_html (parse e) h))
      in if t2 \<noteq> [] then t2
         else (case selenium e url of Inl err \<Rightarrow> [] | Inr h \<Rightarrow> extract_faqs_from_html (parse e) h))"

definition all_tiers_fail :: "env \<Rightarrow> string \<Rightarrow> bool" where
  "all_tiers_fail e url =
     (isl (requests_get e url)
      \<and> (case html_session e of None \<Rightarrow> True | Some render \<Rightarrow> isl (render url))
      \<and> isl (selenium e url))"


definition st_empty :: run_state where
  "st_empty = \<lparr>faq_store = JObj [], data_file = None, shown = []\<rparr>"

definition one_same :: pyval where
  "one_same = JArr [JObj [(''Q'', JStr ''One''), (''A'', JStr ''Same'')]]"

text \<open>An environment in which the page has changed, and the results of the two pages.\<close>

definition env_second :: env where
  "env_second = \<lparr>requests_get = (\<lambda>u. Inr ''<h2>...</h2>''), html_session = None,
                  selenium = (\<lambda>u. Inl ''no browser''), parse = (\<lambda>h. doc_mixed)\<rparr>"

definition what_how :: pyval where
  "what_how = JArr [JObj [(''Q'', JStr ''What?''), (''A'', JStr ''This.'')],
                    JObj [(''Q'', JStr ''How?''), (''A'', JStr ''Like this.'')]]"

definition one_two :: pyval where
  "one_two = JArr [JObj [(''question'', JStr ''One''), (''answer'', JStr ''Same'')],
                   JObj [(''question'', JStr ''Two''), (''answer'', JStr ''Same'')]]"

lemma match_here_C:
  "match_here (C p) s = (case s of [] \<Rightarrow> None | c # cs \<Rightarrow> if cmatch p c then Some (1, \<lambda>_. []) else None)"
  by (simp add: match_here_def split: list.splits)

lemma re_sub_C_del: "re_sub (C p) [] s = filter (\<lambda>c. \<not> cmatch p c) s"
  by (induction s) (simp_all add: match_here_C)

lemma re_sub_C_rep: "re_sub (C p) [x] s = map (\<lambda>c. if cmatch p c then x else c) s"
  by (induction s) (simp_all add: match_here_C)

lemma star_g_Some: "star_g p Some s g = Some (dropWhile (cmatch p) s, g)"
  by (induction s) simp_all

lemma length_takeWhile_dropWhile:
  "length xs - length (dropWhile P xs) = length (takeWhile P xs)"
proof -
  have "length (takeWhile P xs @ dropWhile P xs) = length xs" by simp
  then show ?thesis by (simp del: takeWhile_dropWhile_id)
qed

lemma match_here_PlusG:
  "match_here (PlusG p) s =
     (case s of [] \<Rightarrow> None
      | c # cs \<Rightarrow> if cmatch p c then Some (Suc (length (takeWhile (cmatch p) cs)), \<lambda>_. []) else None)"
proof (cases s)
  case Nil
  then show ?thesis by (simp add: match_here_def)
next
  case (Cons c cs)
  have "Suc (length cs) - length (dropWhile (cmatch p) cs) = Suc (length (takeWhile (cmatch p) cs))"
    using length_takeWhile_dropWhile [of cs "cmatch p"] length_dropWhile_le [of "cmatch p" cs]
    by linarith
  with Cons show ?thesis by (simp add: match_here_def star_g_Some)
qed

lemma cmatch_Space [simp]: "cmatch Space = is_space"
  by (rule ext) simp

lemma cmatch_Digit [simp]: "cmatch Digit = is_digit"
  by (rule ext) simp

lemma re_sub_spaces: "re_sub rx_spaces '' '' s = collapse_spaces s"
proof (induction s rule: collapse_spaces.induct)
  case 1
  then show ?case by (simp add: rx_spaces_def match_here_PlusG)
next
  case (2 c cs)
  then show ?case
    by (simp add: rx_spaces_def match_here_PlusG dropWhile_eq_drop [symmetric])
qed

lemma star_g_digits_close:
  "star_g Digit (m (C (Lit CHR '']'')) Some) s g =
     (if startswith (dropWhile is_digit s) '']'' then Some (tl (dropWhile is_digit s), g) else None)"
proof (induction s)
  case Nil
  then show ?case by simp
next
  case (Cons c cs)
  show ?case
  proof (cases "is_digit c")
    case True
    then have "c \<noteq> CHR '']''" by (auto simp: is_digit_def)
    with True Cons show ?thesis by simp
  next
    case False
    then show ?thesis by (cases "c = CHR '']''") simp_all
  qed
qed

lemma m_citation:
  "m rx_citation Some (c # cs, g) =
     (if c = CHR ''['' \<and> takeWhile is_digit cs \<noteq> [] \<and> startswith (dropWhile is_digit cs) '']''
      then Some (tl (dropWhile is_digit cs), g) else None)"
proof (cases cs)
  case Nil
  then show ?thesis by (simp add: rx_citation_def)
next
  case (Cons d ds)
  then show ?thesis by (simp add: rx_citation_def star_g_digits_close)
qed

lemma match_here_citation_Nil: "match_here rx_citation [] = None"
  by (simp add: match_here_def rx_citation_def)

lemma drop_to_suffix: "drop (length (xs @ ys) - length ys) (xs @ ys) = ys"
  by simp

lemma re_sub_citation: "re_sub rx_citation [] s = remove_citations s"
proof (induction s rule: remove_citations.induct)
  case 1
  then show ?case by (simp add: match_here_citation_Nil)
next
  case (2 c cs)
  let ?cond = "c = CHR ''['' \<and> takeWhile is_digit cs \<noteq> [] \<and> startswith (dropWhile is_digit cs) '']''"
  show ?case
  proof (cases ?cond)
    case True
    obtain e es where dw: "dropWhile is_digit cs = e # es"
      using True by (cases "dropWhile is_digit cs") auto
    have "c # cs = (c # takeWhile is_digit cs @ [e]) @ es"
      using takeWhile_dropWhile_id [of is_digit cs] dw by (metis append.assoc append_Cons append_Nil)
    then obtain pre where split: "c # cs = pre @ es" and pre: "pre \<noteq> []"
      by blast
    have dr: "drop (length (c # cs) - length es) (c # cs) = es"
      by (simp only: split drop_to_suffix)
    have nz: "length (c # cs) - length es \<noteq> 0"
      using pre by (simp only: split length_append) simp
    have mh: "match_here rx_citation (c # cs) = Some (length (c # cs) - length es, \<lambda>_. [])"
      using True dw by (simp add: match_here_def m_citation)
    have "re_sub rx_citation [] (c # cs) = re_sub rx_citation [] es"
      using mh nz dr by (simp del: drop_Suc_Cons length_Cons) 
    also have "\<dots> = remove_citations es"
      using 2(1) True dw by simp
    also have "\<dots> = remove_citations (c # cs)"
      using True dw by simp
    finally show ?thesis .
  next
    case False
    then have mh: "match_here rx_citation (c # cs) = None"
      by (simp add: match_here_def m_citation)
    have "re_sub rx_citation [] (c # cs) = c # re_sub rx_citation [] cs"
      using mh by simp
    also have "\<dots> = c # remove_citations cs"
      using 2(2) False by simp
    also have "\<dots> = remove_citations (c # cs)"
      using False by auto
    finally show ?thesis .
  qed
qed

lemma re_sub_symbols: "re_sub rx_symbols [] s = remove_symbols s"
  by (simp add: rx_symbols_def re_sub_C_del remove_symbols_def)
lemma ws_ok_nonspace_Cons: "\<not> is_space c \<Longrightarrow> ws_ok (c # xs) = ws_ok xs"
  by (cases xs) simp_all

lemma collapse_spaces_hd:
  "xs \<noteq> [] \<Longrightarrow> \<not> is_space (hd xs) \<Longrightarrow> collapse_spaces xs \<noteq> [] \<and> hd (collapse_spaces xs) = hd xs"
  by (cases xs) simp_all

lemma ws_ok_collapse: "ws_ok (collapse_spaces s)"
proof (induction s rule: collapse_spaces.induct)
  case 1
  then show ?case by simp
next
  case (2 c cs)
  show ?case
  proof (cases "is_space c")
    case True
    show ?thesis
    proof (cases "dropWhile is_space cs")
      case Nil
      with True show ?thesis by (simp del: dropWhile_eq_Nil_conv)
    next
      case (Cons d r)
      then have "\<not> is_space d" using hd_dropWhile [of is_space cs] by auto
      then have "collapse_spaces (d # r) = d # collapse_spaces r" by simp
      with True Cons 2(1) \<open>\<not> is_space d\<close> show ?thesis by simp
    qed
  next
    case False
    with 2(2) show ?thesis by (simp add: ws_ok_nonspace_Cons)
  qed
qed



lemma ws_ok_space_chars: "ws_ok t \<Longrightarrow> c \<in> set t \<Longrightarrow> is_space c \<Longrightarrow> c = CHR '' ''"
  by (induction t rule: ws_ok.induct) auto







lemma nbsp_is_space: "is_space (CHR 0xA0)"
  by (simp add: is_space_def)

lemma re_sub_nbsp_collapse: "re_sub rx_nbsp '' '' (collapse_spaces s) = collapse_spaces s"
proof -
  have "\<forall>c\<in>set (collapse_spaces s). c \<noteq> CHR 0xA0"
    using ws_ok_space_chars [OF ws_ok_collapse] nbsp_is_space by fastforce
  then show ?thesis
    by (simp add: rx_nbsp_def re_sub_C_rep map_idI)
qed

lemma clean_text_app_eq:
  "clean_text_app s = strip (collapse_spaces (remove_citations (remove_symbols s)))"
  by (simp add: clean_text_app_def re_sub_symbols re_sub_citation re_sub_spaces re_sub_nbsp_collapse)









lemma set_filter_sub: "x \<notin> set s \<Longrightarrow> x \<notin> set (filter P s)"
  by simp


section \<open>TextNormalizer: idempotence\<close>




lemma clean_text_examples:
  "clean_text_app ''[[1]2]'' = ''[2]''" "clean_text_app ''[2]'' = []"
  "clean_text_model ''a [x] b'' = ''a   b''" "clean_text_model ''a   b'' = ''a b''"
  by code_simp+

section \<open>TextNormalizer: citation markers\<close>

lemma remove_citations_prefix:
  "CHR ''['' \<notin> set pre \<Longrightarrow> remove_citations (pre @ t) = pre @ remove_citations t"
  by (induction pre) auto

lemma digits_then_close:
  assumes "\<forall>d \<in> set ds. is_digit d"
  shows "takeWhile is_digit (ds @ CHR '']'' # post) = ds"
    and "dropWhile is_digit (ds @ CHR '']'' # post) = CHR '']'' # post"
proof -
  have "\<not> is_digit CHR '']''" by (simp add: is_digit_def)
  with assms show "takeWhile is_digit (ds @ CHR '']'' # post) = ds"
    and "dropWhile is_digit (ds @ CHR '']'' # post) = CHR '']'' # post"
    by (simp_all add: takeWhile_tail dropWhile_append3)
qed

lemma remove_citations_marker:
  assumes "ds \<noteq> []" and "\<forall>d \<in> set ds. is_digit d"
  shows "remove_citations (CHR ''['' # ds @ CHR '']'' # post) = remove_citations post"
  using assms digits_then_close [OF assms(2), of post] by simp

lemma remove_citations_none: "\<not> has_citation t \<Longrightarrow> remove_citations t = t"
  by (induction t) (auto simp: starts_citation_def)

text \<open>
  C9 (as amended). In \<^verbatim>\<open>app.py\<close>, the substitution of \<^verbatim>\<open>clean_text\<close> for citation markers
  removes, scanning from the left, each opening bracket followed by one or more digits and a
  closing bracket, and nothing else: a marker after a bracket-free prefix is removed and the
  prefix kept, a text without a marker is left as it is, and \<^verbatim>\<open>clean_text\<close> as a whole is
  the removal of the two stray symbols, then of the markers, then the collapsing of
  whitespace and the trimming.
\<close>

theorem clean_text_app_removes_citations:
  "re_sub rx_citation [] t = remove_citations t
   \<and> (ds \<noteq> [] \<and> (\<forall>d \<in> set ds. is_digit d) \<and> CHR ''['' \<notin> set pre \<longrightarrow>
        remove_citations (pre @ CHR ''['' # ds @ CHR '']'' # post) = pre @ remove_citations post)
   \<and> (\<not> has_citation t \<longrightarrow> remove_citations t = t)
   \<and> clean_text_app s = strip (collapse_spaces (remove_citations (remove_symbols s)))"
  using re_sub_citation remove_citations_prefix remove_citations_marker remove_citations_none
    clean_text_app_eq by simp

theorem clean_text_app_removes_citations_witness:
  "re_sub rx_citation [] ''a[3]b[x]'' = ''ab[x]''
   \<and> clean_text_app ''a[3]b[x]'' = ''ab[x]''"
proof -
  have h1: "''3'' \<noteq> [] \<and> (\<forall>d \<in> set ''3''. is_digit d) \<and> CHR ''['' \<notin> set ''a''"
    by (simp add: is_digit_def)
  have h2: "\<not> has_citation ''b[x]''"
    by (simp add: starts_citation_def is_digit_def)
  have h3: "\<not> has_citation ''ab[x]''"
    by (simp add: starts_citation_def is_digit_def)
  have sym: "remove_symbols ''a[3]b[x]'' = ''a[3]b[x]''"
    by (simp add: remove_symbols_def)
  have ws: "strip (collapse_spaces ''ab[x]'') = ''ab[x]''"
    by (simp add: strip_def lstrip_def rstrip_def is_space_def)
  note t1 = clean_text_app_removes_citations
    [of "''a[3]b[x]''" "''3''" "''a''" "''b[x]''" "''a[3]b[x]''"]
  note t2 = clean_text_app_removes_citations [of "''b[x]''" "''3''" "''a''" "''b[x]''" "''b[x]''"]
  have "remove_citations ''a[3]b[x]'' = ''ab[x]''"
    using t1 t2 h1 h2 by simp
  then show ?thesis using t1 sym ws by simp
qed

text \<open>
  C9 as stated fails in \<^verbatim>\<open>model.py\<close>: its pattern for citation markers asks for a
  \<^verbatim>\<open><\<close> before the bracket, and a later substitution replaces every bracketed text by a
  space, so other bracketed text is removed too.
\<close>

theorem clean_text_model_removes_any_bracketed_text:
  "clean_text_model ''a[note]b'' = ''a b'' \<and> clean_text_model ''a[3]b'' = ''a b''
   \<and> clean_text_app ''a[note]b'' = ''a[note]b''"
  by code_simp


















section \<open>ExtractionCascade\<close>

text \<open>
  C1 (as amended). In \<^verbatim>\<open>app.py\<close>, \<^verbatim>\<open>extract_faqs_from_html\<close> returns the result of the first
  of its four strategies, taken in their fixed order, that yields at least one pair, and the
  empty list when none does; nothing of a later strategy is added to it.
\<close>

theorem extraction_cascade_first_nonempty:
  "extract_faqs_from_soup soup0 = first_nonempty (strategy_results soup0)"
  by (simp add: extract_faqs_from_soup_def strategy_results_def first_nonempty_def Let_def)

theorem extraction_cascade_first_nonempty_witness:
  "extract_faqs_from_soup doc_dl = first_nonempty (strategy_results doc_dl)
   \<and> first_nonempty (strategy_results doc_dl)
     = [\<lparr>question = ''One'', answer = ''Same''\<rparr>, \<lparr>question = ''Two'', answer = ''Same''\<rparr>]"
proof -
  have "extract_faqs_from_soup doc_dl
     = [\<lparr>question = ''One'', answer = ''Same''\<rparr>, \<lparr>question = ''Two'', answer = ''Same''\<rparr>]"
    by code_simp
  then show ?thesis using extraction_cascade_first_nonempty [of doc_dl] by simp
qed

text \<open>
  C1 as stated fails in \<^verbatim>\<open>model.py\<close>: \<^verbatim>\<open>extract_faq\<close> runs its three modes one after the
  other on the same list. On a document with a heading followed by a paragraph and a
  Q/A text, mode A yields one pair, and the pair of mode C is returned as well.
\<close>

theorem extract_faq_runs_every_mode:
  "fst (mode_a (get_text_of [CHR 0x0A] False (remove_noise doc_mixed)) ([], {}, {}))
     = [\<lparr>qa_Q = ''What?'', qa_A = ''This.''\<rparr>]
   \<and> extract_faq_soup doc_mixed
     = [\<lparr>qa_Q = ''What?'', qa_A = ''This.''\<rparr>, \<lparr>qa_Q = ''How?'', qa_A = ''Like this.''\<rparr>]"
  by code_simp

section \<open>FaqPair: fields are not empty\<close>

lemma endswith_Nil: "\<not> endswith [] ''?''"
  by (simp add: endswith_def)

lemma startswith_Nil: "\<not> startswith [] [c]"
  by simp















section \<open>Deduplication\<close>








lemma mode_c_answers_compared_as_joined:
  "extract_faq_soup doc_joined_parts
     = [\<lparr>qa_Q = ''T1'', qa_A = ''x ''\<rparr>, \<lparr>qa_Q = ''T2'', qa_A = ''x''\<rparr>]"
  by code_simp




section \<open>The end-to-end example\<close>

text \<open>
  C5. On the plain text of the example, \<^verbatim>\<open>extract_faqs_from_html\<close> of \<^verbatim>\<open>app.py\<close> returns no
  pair at all: the first group of its pattern is lazy and everything after it can match
  without it, so the question is always empty and every match is discarded
  (\<open>strategy_1_empty\<close>). \<^verbatim>\<open>extract_faq\<close> of \<^verbatim>\<open>model.py\<close> returns the two pairs
  (\<open>qa_text_in_model\<close>).
\<close>

theorem qa_text_yields_nothing_in_app:
  "extract_faqs_from_soup [Text doc_qa_text] = []"
  by code_simp

lemma qa_text_in_model:
  "extract_faq_soup [Text doc_qa_text]
     = [\<lparr>qa_Q = ''What?'', qa_A = ''This.''\<rparr>, \<lparr>qa_Q = ''Why?'', qa_A = ''Because.''\<rparr>]"
  by code_simp

lemma mixed_in_app: "extract_faqs_from_soup doc_mixed = [\<lparr>question = ''How?'', answer = ''Like this.''\<rparr>]"
  by code_simp

section \<open>FetchCascade: errors are contained\<close>


lemma fetch_after_tier1_failure:
  assumes "requests_get e url = Inl err"
  shows "snd (fetch_and_extract_all e url) = Inr (later_tiers e url)"
    and "StError (''[!] Requests failed: '' @ err @ ''. Attempting fallback...'')
           \<in> set (fst (fetch_and_extract_all e url))"
  using assms
  by (auto simp: fetch_and_extract_all_def tier_requests_def tier_requests_html_def
      tier_selenium_def later_tiers_def Let_def split: prod.splits option.splits sum.splits)

lemma later_tiers_all_fail: "all_tiers_fail e url \<Longrightarrow> later_tiers e url = []"
  by (auto simp: all_tiers_fail_def later_tiers_def isl_def split: option.splits)





section \<open>FaqStore\<close>

lemma map_of_dict_set: "map_of (dict_set kvs k v) k' = (if k' = k then Some v else map_of kvs k')"
  by (induction kvs) auto

lemma in_keys_iff: "k \<in> set (map fst kvs) \<longleftrightarrow> map_of kvs k \<noteq> None"
  by (simp add: map_of_eq_None_iff)

lemma cache_hit_app:
  assumes "faq_store st = JObj kvs" and "map_of kvs url = Some (JArr r1)" and "url \<noteq> []"
  shows "\<exists>st'. handle_request_app e url st = Inr (st', JArr r1) \<and> faq_store st' = faq_store st
           \<and> data_file st' = data_file st \<and> py_getitem (faq_store st') url = Inr (JArr r1)"
proof -
  have "url \<in> set (map fst kvs)" by (metis assms(2) in_keys_iff option.distinct(1))
  with assms show ?thesis
    by (simp add: handle_request_app_def py_contains_def py_getitem_def py_len_def)
qed

lemma cache_hit_model:
  assumes "faq_store st = JObj kvs" and "map_of kvs url = Some (JArr r1)" and "url \<noteq> []"
  shows "\<exists>st'. handle_request_model e url st = Inr (st', JArr r1) \<and> faq_store st' = faq_store st
           \<and> data_file st' = data_file st \<and> py_getitem (faq_store st') url = Inr (JArr r1)"
proof -
  have "url \<in> set (map fst kvs)" by (metis assms(2) in_keys_iff option.distinct(1))
  with assms show ?thesis
    by (simp add: handle_request_model_def py_contains_def py_getitem_def)
qed

lemma empty_result_app:
  assumes "faq_store st = JObj kvs" and "url \<notin> set (map fst kvs)" and "url \<noteq> []"
    and "snd (fetch_and_extract_all e url) = Inr []"
  shows "handle_request_app e url st
     = Inr (st\<lparr>shown := shown st @ fst (fetch_and_extract_all e url)
                 @ [StWarning ''No FAQs could be extracted from this URL.'']\<rparr>, JArr [])"
  using assms
  by (cases "fetch_and_extract_all e url")
    (simp add: handle_request_app_def py_contains_def faqs_val_def truthy_def)

lemma miss_app:
  assumes "faq_store st = JObj kvs" and "url \<notin> set (map fst kvs)" and "url \<noteq> []"
    and "snd (fetch_and_extract_all e url) = Inr faqs"
  shows "\<exists>st'. handle_request_app e url st = Inr (st', faqs_val faqs)"
  using assms
  by (cases "fetch_and_extract_all e url")
    (simp add: handle_request_app_def py_contains_def py_setitem_def py_len_def
      faqs_val_def truthy_def)

text \<open>
  C10. In \<^verbatim>\<open>app.py\<close>, when the URL is not in the store and the fetch-and-extract run returns
  no pair, the request leaves the store and the cache file unchanged, the URL is still not
  in the store, and the next request for it runs the pipeline again: it returns what
  \<^verbatim>\<open>fetch_and_extract_all\<close> produces then.
\<close>

theorem empty_results_not_cached:
  "faq_store st = JObj kvs \<and> url \<notin> set (map fst kvs) \<and> url \<noteq> []
     \<and> snd (fetch_and_extract_all e url) = Inr [] \<longrightarrow>
   (\<exists>st'. handle_request_app e url st = Inr (st', JArr [])
      \<and> faq_store st' = faq_store st \<and> data_file st' = data_file st
      \<and> py_contains (faq_store st') url = Inr False
      \<and> (snd (fetch_and_extract_all e2 url) = Inr faqs2 \<longrightarrow>
           (\<exists>st''. handle_request_app e2 url st' = Inr (st'', faqs_val faqs2))))"
proof (intro impI, elim conjE)
  assume a: "faq_store st = JObj kvs" "url \<notin> set (map fst kvs)" "url \<noteq> []"
    "snd (fetch_and_extract_all e url) = Inr []"
  let ?st' = "st\<lparr>shown := shown st @ fst (fetch_and_extract_all e url)
                 @ [StWarning ''No FAQs could be extracted from this URL.'']\<rparr>"
  have 1: "handle_request_app e url st = Inr (?st', JArr [])"
    using a by (rule empty_result_app)
  have 2: "faq_store ?st' = JObj kvs" using a by simp
  have 3: "snd (fetch_and_extract_all e2 url) = Inr faqs2 \<longrightarrow>
           (\<exists>st''. handle_request_app e2 url ?st' = Inr (st'', faqs_val faqs2))"
    using miss_app [OF 2 a(2,3)] by blast
  show "\<exists>st'. handle_request_app e url st = Inr (st', JArr [])
      \<and> faq_store st' = faq_store st \<and> data_file st' = data_file st
      \<and> py_contains (faq_store st') url = Inr False
      \<and> (snd (fetch_and_extract_all e2 url) = Inr faqs2 \<longrightarrow>
           (\<exists>st''. handle_request_app e2 url st' = Inr (st'', faqs_val faqs2)))"
    by (rule exI [of _ ?st']) (use 1 3 a in \<open>simp add: py_contains_def\<close>)
qed

theorem empty_results_not_cached_witness:
  "\<exists>st'. handle_request_app env_dead ''http://x'' st_empty = Inr (st', JArr [])
      \<and> faq_store st' = JObj [] \<and> data_file st' = None
      \<and> py_contains (faq_store st') ''http://x'' = Inr False
      \<and> (\<exists>st''. handle_request_app env_static ''http://x'' st'
            = Inr (st'', faqs_val [\<lparr>question = ''One'', answer = ''Same''\<rparr>,
                                   \<lparr>question = ''Two'', answer = ''Same''\<rparr>]))"
proof -
  have f: "snd (fetch_and_extract_all env_static ''http://x'')
     = Inr [\<lparr>question = ''One'', answer = ''Same''\<rparr>, \<lparr>question = ''Two'', answer = ''Same''\<rparr>]"
    by code_simp
  have "requests_get env_dead ''http://x'' = Inl ''timed out''"
    by (simp add: env_dead_def)
  moreover have "all_tiers_fail env_dead ''http://x''"
    by (simp add: all_tiers_fail_def env_dead_def)
  ultimately have d: "snd (fetch_and_extract_all env_dead ''http://x'') = Inr []"
    using fetch_after_tier1_failure(1) later_tiers_all_fail by simp
  have h: "faq_store st_empty = JObj [] \<and> ''http://x'' \<notin> set (map fst ([] :: (string \<times> pyval) list))
           \<and> ''http://x'' \<noteq> []"
    by (simp add: st_empty_def)
  have s: "faq_store st_empty = JObj []" "data_file st_empty = None"
    by (simp_all add: st_empty_def)
  show ?thesis
    using empty_results_not_cached [of st_empty "[]" "''http://x''" env_dead env_static
        "[\<lparr>question = ''One'', answer = ''Same''\<rparr>, \<lparr>question = ''Two'', answer = ''Same''\<rparr>]"]
      f d h s
    by (metis (no_types, lifting))
qed

section \<open>FaqStore: the cache file\<close>

lemma app_cache_file_round_trip_example:
  "load_faq_cache (Some (save_faq_cache (JObj [(''http://x'', one_same), (''b'', JArr [])])))
     = JObj [(''http://x'', one_same), (''b'', JArr [])]"
  by code_simp

lemma model_cache_file_two_entries:
  "(case save_faq_store (JObj [(''http://x'', one_same), (''b'', JArr [])]) of
      Inl err \<Rightarrow> JLit ''error''
    | Inr text \<Rightarrow> load_faq_cache (Some text)) = JObj []"
  by code_simp

text \<open>
  C3. In \<^verbatim>\<open>model.py\<close> the round trip fails: \<^verbatim>\<open>save_faq_store\<close> writes one line
  \<^verbatim>\<open>{"url": ..., "faqs": ...}\<close> for each entry, and the loading code reads the file as one JSON
  document. After a first request has stored a result under a URL and written the file, a
  fresh load gives a dictionary with the keys \<^verbatim>\<open>url\<close> and \<^verbatim>\<open>faqs\<close>, in which the URL is not
  found; with two entries the file is not one document and the load gives the empty store
  (\<open>model_cache_file_two_entries\<close>). In \<^verbatim>\<open>app.py\<close> the same example round-trips
  (\<open>app_cache_file_round_trip_example\<close>).
\<close>

theorem model_cache_file_does_not_round_trip:
  "(case handle_request_model env_static ''http://x'' st_empty of
      Inl err \<Rightarrow> False
    | Inr (st1, faqs) \<Rightarrow>
        faqs = one_same
        \<and> py_getitem (faq_store st1) ''http://x'' = Inr one_same
        \<and> load_faq_cache (data_file st1)
            = JObj [(''url'', JStr ''http://x''), (''faqs'', one_same)]
        \<and> py_contains (load_faq_cache (data_file st1)) ''http://x'' = Inr False)"
  by code_simp

section \<open>FaqStore: a second request for the same URL\<close>

lemma app_second_request_hits_cache:
  "(case run_app env_static ''http://x'' None of
      Inl err \<Rightarrow> False
    | Inr (st1, faqs1) \<Rightarrow>
        faqs1 = one_two
        \<and> (case run_app env_second ''http://x'' (data_file st1) of
              Inl err \<Rightarrow> False
            | Inr (st2, faqs2) \<Rightarrow>
                faqs2 = one_two \<and> py_getitem (faq_store st2) ''http://x'' = Inr one_two
                \<and> data_file st2 = data_file st1))"
  by code_simp

text \<open>
  C7. In \<^verbatim>\<open>model.py\<close> the first write does not win. Within a run of the script a URL found
  in the store is not fetched again (\<open>cache_hit_model\<close>; \<open>cache_hit_app\<close> for \<^verbatim>\<open>app.py\<close>), but
  every request is a new run that loads the store from the cache file, and the file
  \<^verbatim>\<open>model.py\<close> writes does not load back (C3). After a first request has stored the result
  of a page under a URL, a second request for the URL, the page having changed, does not
  find it, extracts again and stores the new result: the lookup then gives the second
  result. In \<^verbatim>\<open>app.py\<close> the same two requests return and keep the first result
  (\<open>app_second_request_hits_cache\<close>).
\<close>

theorem model_second_request_overwrites:
  "(case run_model env_static ''http://x'' None of
      Inl err \<Rightarrow> False
    | Inr (st1, faqs1) \<Rightarrow>
        faqs1 = one_same \<and> py_getitem (faq_store st1) ''http://x'' = Inr one_same
        \<and> (case run_model env_second ''http://x'' (data_file st1) of
              Inl err \<Rightarrow> False
            | Inr (st2, faqs2) \<Rightarrow>
                faqs2 = what_how \<and> py_getitem (faq_store st2) ''http://x'' = Inr what_how
                \<and> what_how \<noteq> one_same))"
  by code_simp

end
